theory Spec2Isabelle
  imports Complex_Main "HOL-Library.Word" "HOL-Library.Multiset"
begin

section \<open>Exceptions\<close>

text \<open>
  Every \<^verbatim>\<open>raise\<close> of the Python sources is a value of this type; a function that can
  raise returns \<open>error + 'a\<close>, with \<open>Inl\<close> for the exception. The string is the message
  the source builds. \<open>HTTPException\<close> carries the status code and the detail.
  \<open>OtherException\<close> stands for the exceptions of the external libraries (database
  driver, embedding provider), which are not \<^verbatim>\<open>ValueError\<close>s.
\<close>

datatype error =
    ValueError string
  | RuntimeError string
  | IntegrityError string
  | OtherException string
  | RequestValidationError
  | HTTPException nat string

section \<open>SimilarityEngine: \<^verbatim>\<open>offline_store.cosine_similarity\<close>\<close>

text \<open>
  Python floats are idealised as real numbers: \<^verbatim>\<open>** 0.5\<close> is the real square root and
  no rounding, overflow or underflow happens.
  \<^verbatim>\<open>
  def cosine_similarity(a, b):
      if not a or not b:
          return 0.0
      if len(a) != len(b):
          raise ValueError("Vectors must be the same length for cosine similarity.")
      dot = sum(x * y for x, y in zip(a, b))
      norm_a = sum(x * x for x in a) ** 0.5
      norm_b = sum(x * x for x in b) ** 0.5
      if norm_a == 0 or norm_b == 0:
          return 0.0
      return dot / (norm_a * norm_b)
  \<close>
\<close>

definition dot_product :: "real list \<Rightarrow> real list \<Rightarrow> real" where
  "dot_product a b = sum_list (map (\<lambda>(x, y). x * y) (zip a b))"

definition norm_of :: "real list \<Rightarrow> real" where
  "norm_of a = sqrt (sum_list (map (\<lambda>x. x * x) a))"

definition cosine_similarity :: "real list \<Rightarrow> real list \<Rightarrow> error + real" where
  "cosine_similarity a b =
     (if a = [] \<or> b = [] then Inr 0
      else if length a \<noteq> length b
        then Inl (ValueError ''Vectors must be the same length for cosine similarity.'')
      else if norm_of a = 0 \<or> norm_of b = 0 then Inr 0
      else Inr (dot_product a b / (norm_of a * norm_of b)))"

section \<open>RetryExecutor: the decorator \<^verbatim>\<open>supabase_client.retry\<close>\<close>

text \<open>
  \<^verbatim>\<open>
  def inner(*args, **kwargs):
      last_exception = None
      for attempt in range(times):
          try:
              return fn(*args, **kwargs)
          except Exception as e:
              last_exception = e
              if attempt < times - 1:
                  wait_time = delay * (2 ** attempt)
                  logger.warning(...)
                  time.sleep(wait_time)
              else:
                  logger.error(...)
      if last_exception:
          raise last_exception
  \<close>
  The wrapped operation is a state transformer: a call returns a value or raises, and
  leaves the world in a new state. The run of \<^verbatim>\<open>inner\<close> yields how it ended, the
  state after the last call and the arguments of the calls of \<^verbatim>\<open>time.sleep\<close> in
  order. Falling off the end of the function body is Python's \<^verbatim>\<open>return None\<close>.
  An exception object is truthy, so \<^verbatim>\<open>if last_exception\<close> asks whether a call has
  failed. The calls of the logger have no effect on the result.
\<close>

datatype ('e, 'a) outcome = Returned 'a | ReturnedNone | Raised 'e

fun retry_loop ::
  "int \<Rightarrow> real \<Rightarrow> ('s \<Rightarrow> ('e + 'a) \<times> 's) \<Rightarrow> nat list \<Rightarrow> 'e option \<Rightarrow> 's \<Rightarrow> real list
     \<Rightarrow> ('e, 'a) outcome \<times> 's \<times> real list" where
  "retry_loop times' delay fn [] last_exception s slept =
     ((case last_exception of None \<Rightarrow> ReturnedNone | Some e \<Rightarrow> Raised e), s, slept)"
| "retry_loop times' delay fn (attempt # rest) last_exception s slept =
     (case fn s of
        (Inr v, s') \<Rightarrow> (Returned v, s', slept)
      | (Inl e, s') \<Rightarrow>
          if int attempt < times' - 1
          then retry_loop times' delay fn rest (Some e) s' (slept @ [delay * 2 ^ attempt])
          else retry_loop times' delay fn rest (Some e) s' slept)"

definition retry ::
  "int \<Rightarrow> real \<Rightarrow> ('s \<Rightarrow> ('e + 'a) \<times> 's) \<Rightarrow> 's \<Rightarrow> ('e, 'a) outcome \<times> 's \<times> real list" where
  "retry times' delay fn s = retry_loop times' delay fn [0 ..< nat times'] None s []"

text \<open>An operation that fails on its first two calls and succeeds from the third on.\<close>

definition flaky :: "nat \<Rightarrow> (string + nat) \<times> nat" where
  "flaky calls =
     (if calls < 2 then (Inl (if calls = 0 then ''first'' else ''second''), Suc calls)
      else (Inr 42, Suc calls))"

definition broken :: "nat \<Rightarrow> (nat + unit) \<times> nat" where
  "broken calls = (Inl calls, Suc calls)"

section \<open>Python strings and slices\<close>

text \<open>
  A Python \<^verbatim>\<open>str\<close> is modelled by a \<open>string\<close> whose characters are the code points
  below 256. \<open>isspace\<close> is \<^verbatim>\<open>str.isspace\<close> on one such character,
  \<open>strip\<close> is \<^verbatim>\<open>s.strip()\<close> and \<open>str_split sep s\<close> is \<^verbatim>\<open>s.split(sep)\<close>
  for a separator of one character: \<open>n\<close> separators give \<open>n + 1\<close> parts, empty parts
  included.
\<close>

definition isspace :: "char \<Rightarrow> bool" where
  "isspace c =
     (let n = (of_char c :: nat)
      in (9 \<le> n \<and> n \<le> 13) \<or> (28 \<le> n \<and> n \<le> 32) \<or> n = 133 \<or> n = 160)"

definition strip :: "string \<Rightarrow> string" where
  "strip s = rev (dropWhile isspace (rev (dropWhile isspace s)))"

fun str_split :: "char \<Rightarrow> string \<Rightarrow> string list" where
  "str_split sep [] = [[]]"
| "str_split sep (c # cs) =
     (if c = sep then [] # str_split sep cs
      else (case str_split sep cs of [] \<Rightarrow> [[c]] | part # parts \<Rightarrow> (c # part) # parts))"

text \<open>
  The slices \<^verbatim>\<open>xs[:k]\<close> and \<^verbatim>\<open>xs[k:]\<close> for any integer \<open>k\<close>: a negative bound
  counts from the end and is clamped at the start of the list.
\<close>

definition slice_to :: "'a list \<Rightarrow> int \<Rightarrow> 'a list" where
  "slice_to xs k = (if 0 \<le> k then take (nat k) xs else take (nat (int (length xs) + k)) xs)"

definition slice_from :: "'a list \<Rightarrow> int \<Rightarrow> 'a list" where
  "slice_from xs k = (if 0 \<le> k then drop (nat k) xs else drop (nat (int (length xs) + k)) xs)"

section \<open>Records of the stores\<close>

text \<open>
  A row of a table of the local store, after \<^verbatim>\<open>_row_to_dict\<close> has decoded its JSON
  columns. The \<^verbatim>\<open>embedding\<close> column holds the JSON text that
  \<^verbatim>\<open>_normalize_payload\<close> wrote: it decodes to a list of numbers, or to a value that is
  no \<^verbatim>\<open>Sequence\<close> (\<^verbatim>\<open>None\<close> for SQL NULL or an absent key, a number, an object).
  \<^verbatim>\<open>created_at\<close> is the timestamp in seconds, the resolution of SQLite's
  \<^verbatim>\<open>CURRENT_TIMESTAMP\<close>. A search result is the row's dictionary with the key
  \<^verbatim>\<open>similarity\<close> added.
\<close>

type_synonym metadata = "(string \<times> string) list"

datatype embedding_value = Vector "real list" | NotSequence

record row =
  id_col :: string
  content :: string
  metadata :: metadata
  embedding :: embedding_value
  status :: "string option"
  created_at :: nat

record scored_row = row +
  similarity :: real

section \<open>RemoteVectorStore: \<^verbatim>\<open>pgvector_client.PGVectorClient\<close>\<close>

text \<open>
  \<^verbatim>\<open>_TABLE_NAME_PATTERN = re.compile(r"^[A-Za-z_][A-Za-z0-9_]*$")\<close>, used with
  \<^verbatim>\<open>match\<close>. In Python \<^verbatim>\<open>$\<close> also matches just before a newline that ends the
  string.
\<close>

definition is_letter_or_underscore :: "char \<Rightarrow> bool" where
  "is_letter_or_underscore c =
     (let n = (of_char c :: nat) in (65 \<le> n \<and> n \<le> 90) \<or> (97 \<le> n \<and> n \<le> 122) \<or> n = 95)"

definition is_word_char :: "char \<Rightarrow> bool" where
  "is_word_char c =
     (is_letter_or_underscore c \<or> (let n = (of_char c :: nat) in 48 \<le> n \<and> n \<le> 57))"

definition TABLE_NAME_PATTERN_match :: "string \<Rightarrow> bool" where
  "TABLE_NAME_PATTERN_match s =
     (case s of
        [] \<Rightarrow> False
      | c # cs \<Rightarrow>
          is_letter_or_underscore c \<and>
          (list_all is_word_char cs \<or>
           (cs \<noteq> [] \<and> last cs = CHR 0x0A \<and> list_all is_word_char (butlast cs))))"

text \<open>
  \<^verbatim>\<open>
  def _identifier_parts(name):
      parts = [part.strip() for part in name.split(".") if part.strip()]
      if not parts or len(parts) > 2:
          raise ValueError(f"Identifier '{name}' is not permitted.")
      for part in parts:
          if not _TABLE_NAME_PATTERN.match(part):
              raise ValueError(f"Identifier '{name}' is not permitted.")
      return tuple(parts)
  \<close>
\<close>

definition not_permitted :: "string \<Rightarrow> error" where
  "not_permitted name = ValueError (''Identifier '' @ [CHR 0x27] @ name @ [CHR 0x27] @ '' is not permitted.'')"

definition identifier_parts :: "string \<Rightarrow> error + string list" where
  "identifier_parts name =
     (let parts = filter (\<lambda>part. part \<noteq> []) (map strip (str_split (CHR ''.'') name))
      in if parts = [] \<or> 2 < length parts then Inl (not_permitted name)
         else if \<not> list_all TABLE_NAME_PATTERN_match parts then Inl (not_permitted name)
         else Inr parts)"

text \<open>
  The database server is outside the repository. \<open>pg_insert\<close> is what executing the
  \<^verbatim>\<open>INSERT ... RETURNING id\<close> statement and \<^verbatim>\<open>fetchone\<close> do on a connection: the
  returned id, no row, or an exception of the driver, and the new state of the database.
  \<open>pg_select_ranked\<close> is the result of the \<^verbatim>\<open>SELECT\<close> of
  \<^verbatim>\<open>search_embeddings\<close> up to its \<^verbatim>\<open>ORDER BY\<close>: the tuples
  \<open>(id, content, metadata, created_at, similarity)\<close>, nearest first; the clause
  \<^verbatim>\<open>LIMIT top_k\<close> is \<open>pg_limit\<close> (PostgreSQL rejects a negative limit). The
  dictionary built from a tuple has no keys \<^verbatim>\<open>embedding\<close> and \<^verbatim>\<open>status\<close>; reading
  them with \<^verbatim>\<open>get\<close> gives \<^verbatim>\<open>None\<close>, which is how \<open>pg_row_to_dict\<close> fills them.
\<close>

type_synonym pg_row = "string \<times> string \<times> metadata \<times> nat \<times> real"

record 'db pg_server =
  pg_insert ::
    "'db \<Rightarrow> string list \<Rightarrow> string \<Rightarrow> real list \<Rightarrow> metadata \<Rightarrow> (error + string option) \<times> 'db"
  pg_select_ranked :: "'db \<Rightarrow> string list \<Rightarrow> real list \<Rightarrow> error + pg_row list"

definition pg_limit :: "int \<Rightarrow> pg_row list \<Rightarrow> error + pg_row list" where
  "pg_limit top_k rows =
     (if top_k < 0 then Inl (OtherException ''LIMIT must not be negative'')
      else Inr (take (nat top_k) rows))"


definition pg_row_to_dict :: "pg_row \<Rightarrow> scored_row" where
  "pg_row_to_dict r =
     (case r of (i, c, m, t, sim) \<Rightarrow>
        \<lparr>id_col = i, content = c, metadata = m, embedding = NotSequence, status = None,
         created_at = t, similarity = sim\<rparr>)"

definition client_search_embeddings ::
  "'db pg_server \<Rightarrow> 'db \<Rightarrow> string \<Rightarrow> real list \<Rightarrow> int \<Rightarrow> error + scored_row list" where
  "client_search_embeddings server db table embedding' top_k =
     (case identifier_parts table of
        Inl e \<Rightarrow> Inl e
      | Inr identifier \<Rightarrow>
          (case pg_select_ranked server db identifier embedding' of
             Inl e \<Rightarrow> Inl e
           | Inr ranked \<Rightarrow>
               (case pg_limit top_k ranked of
                  Inl e \<Rightarrow> Inl e
                | Inr rows \<Rightarrow> Inr (map pg_row_to_dict rows))))"

text \<open>
  A server for the examples: its state is the list of the tuples stored so far, every
  insert is given the id \<open>''1''\<close>, and the ranking returns the stored tuples as they are.
\<close>

definition demo_server :: "(pg_row list) pg_server" where
  "demo_server =
     \<lparr>pg_insert = (\<lambda>db identifier c v m. (Inr (Some ''1''), db @ [(''1'', c, m, 0, 0)])),
      pg_select_ranked = (\<lambda>db identifier q. Inr db)\<rparr>"

section \<open>LocalFallbackStore: \<^verbatim>\<open>offline_store\<close>\<close>

text \<open>
  The SQLite file is a map from table names to the rows of the table in rowid order,
  which is the order of insertion: \<^verbatim>\<open>insert_record\<close> appends. \<^verbatim>\<open>_ensure_database\<close>
  creates every supported table, so each of them is there (empty at first).
  \<^verbatim>\<open>
  def _normalize_table_name(table):
      parts = table.split(".")
      normalized = parts[-1].strip()
      if normalized not in _SUPPORTED_TABLES:
          raise ValueError(f"Table '{table}' is not supported offline.")
      return normalized
  \<close>
  \<^verbatim>\<open>split\<close> returns at least one part, so \<^verbatim>\<open>parts[-1]\<close> is \<open>last parts\<close>.
\<close>

type_synonym database = "string \<Rightarrow> row list"

definition SUPPORTED_TABLES :: "string set" where
  "SUPPORTED_TABLES =
     {''ocr_logs'', ''translations'', ''embeddings'', ''ti_memory'', ''task_queue'', ''mauri_logs''}"

definition not_supported :: "string \<Rightarrow> error" where
  "not_supported table =
     ValueError (''Table '' @ [CHR 0x27] @ table @ [CHR 0x27] @ '' is not supported offline.'')"

definition normalize_table_name :: "string \<Rightarrow> error + string" where
  "normalize_table_name table =
     (let parts = str_split (CHR ''.'') table;
          normalized = strip (last parts)
      in if normalized \<notin> SUPPORTED_TABLES then Inl (not_supported table) else Inr normalized)"

text \<open>
  The query of \<^verbatim>\<open>fetch_records\<close> is
  \<^verbatim>\<open>SELECT * FROM t ORDER BY datetime(created_at) DESC\<close>, with \<^verbatim>\<open>LIMIT n\<close> appended
  when \<^verbatim>\<open>limit\<close> is truthy. SQLite's sorter is modelled by a stable sort: rows with
  the same \<^verbatim>\<open>created_at\<close> stay in rowid order (SQL leaves their order open; this is
  what SQLite returns). A negative \<^verbatim>\<open>LIMIT\<close> is no limit in SQLite.
  \<^verbatim>\<open>
  def fetch_records(table, limit=None):
      table_name = _normalize_table_name(table)
      conn = _ensure_database()
      query = f"SELECT * FROM {table_name} ORDER BY datetime(created_at) DESC"
      if limit:
          query += f" LIMIT {int(limit)}"
      rows = conn.execute(query).fetchall()
      return [_row_to_dict(row) for row in rows]
  \<close>
\<close>

definition order_by_created_at_desc :: "row list \<Rightarrow> row list" where
  "order_by_created_at_desc rows = sort_key (\<lambda>r. - int (created_at r)) rows"

definition sqlite_limit :: "int \<Rightarrow> 'a list \<Rightarrow> 'a list" where
  "sqlite_limit n rows = (if n < 0 then rows else take (nat n) rows)"

definition fetch_records :: "database \<Rightarrow> string \<Rightarrow> int option \<Rightarrow> error + row list" where
  "fetch_records db table limit =
     (case normalize_table_name table of
        Inl e \<Rightarrow> Inl e
      | Inr table_name \<Rightarrow>
          (let ordered = order_by_created_at_desc (db table_name)
           in Inr (case limit of
                     None \<Rightarrow> ordered
                   | Some n \<Rightarrow> if n \<noteq> 0 then sqlite_limit n ordered else ordered)))"

text \<open>
  \<^verbatim>\<open>insert_record\<close> gives the item a fresh id unless the payload has one
  (\<^verbatim>\<open>setdefault("id", str(uuid.uuid4()))\<close>), and the table gives it the current
  time (\<^verbatim>\<open>created_at TIMESTAMP DEFAULT CURRENT_TIMESTAMP\<close>); \<open>uuid\<close> and \<open>now\<close>
  are what \<^verbatim>\<open>uuid4\<close> and the clock yield at the call. \<^verbatim>\<open>id TEXT PRIMARY KEY\<close>
  makes the insert of a second row with the same id fail. The function returns the
  item's dictionary; the model returns the stored row, which holds the same keys.
\<close>

record payload =
  payload_id :: "string option"
  payload_content :: string
  payload_embedding :: embedding_value
  payload_metadata :: metadata

definition insert_record ::
  "database \<Rightarrow> string \<Rightarrow> nat \<Rightarrow> string \<Rightarrow> payload \<Rightarrow> (error + row) \<times> database" where
  "insert_record db uuid now table item =
     (case normalize_table_name table of
        Inl e \<Rightarrow> (Inl e, db)
      | Inr table_name \<Rightarrow>
          (let r = \<lparr>id_col = (case payload_id item of None \<Rightarrow> uuid | Some i \<Rightarrow> i),
                    content = payload_content item,
                    metadata = payload_metadata item,
                    embedding = payload_embedding item,
                    status = None,
                    created_at = now\<rparr>
           in if id_col r \<in> set (map id_col (db table_name))
              then (Inl (IntegrityError ''UNIQUE constraint failed''), db)
              else (Inr r, db(table_name := db table_name @ [r]))))"

definition store_embedding ::
  "database \<Rightarrow> string \<Rightarrow> nat \<Rightarrow> string \<Rightarrow> string \<Rightarrow> real list \<Rightarrow> metadata
     \<Rightarrow> (error + string) \<times> database" where
  "store_embedding db uuid now table content' embedding' metadata' =
     (case insert_record db uuid now table
             \<lparr>payload_id = None, payload_content = content',
              payload_embedding = Vector embedding', payload_metadata = metadata'\<rparr> of
        (Inl e, db') \<Rightarrow> (Inl e, db')
      | (Inr record', db') \<Rightarrow> (Inr (id_col record'), db'))"

text \<open>
  \<^verbatim>\<open>
  def top_k_embeddings(table, query_vector, top_k=5):
      records = fetch_records(table)
      scored = []
      for record in records:
          embedding = record.get("embedding")
          if isinstance(embedding, str):
              embedding = json.loads(embedding)
          if not isinstance(embedding, Sequence):
              continue
          score = cosine_similarity(query_vector, embedding)
          scored.append((score, record))
      scored.sort(key=lambda item: item[0], reverse=True)
      results = []
      for score, record in scored[:top_k]:
          enriched = dict(record)
          enriched["similarity"] = float(score)
          results.append(enriched)
      return results
  \<close>
  \<open>score_records\<close> is the first loop: the first record whose vector has another
  length than the query raises. Python's \<^verbatim>\<open>sort\<close> is stable, also with
  \<^verbatim>\<open>reverse=True\<close>: items with equal keys keep their order.
\<close>

fun score_records :: "real list \<Rightarrow> row list \<Rightarrow> error + (real \<times> row) list" where
  "score_records query_vector [] = Inr []"
| "score_records query_vector (record' # records) =
     (case embedding record' of
        NotSequence \<Rightarrow> score_records query_vector records
      | Vector v \<Rightarrow>
          (case cosine_similarity query_vector v of
             Inl e \<Rightarrow> Inl e
           | Inr score \<Rightarrow>
               (case score_records query_vector records of
                  Inl e \<Rightarrow> Inl e
                | Inr scored \<Rightarrow> Inr ((score, record') # scored))))"

definition sort_reverse :: "(real \<times> row) list \<Rightarrow> (real \<times> row) list" where
  "sort_reverse scored = sort_key (\<lambda>item. - fst item) scored"

definition enrich :: "real \<times> row \<Rightarrow> scored_row" where
  "enrich item =
     (case item of (score, record') \<Rightarrow>
        \<lparr>id_col = id_col record', content = content record', metadata = metadata record',
         embedding = embedding record', status = status record',
         created_at = created_at record', similarity = score\<rparr>)"

definition top_k_embeddings ::
  "database \<Rightarrow> string \<Rightarrow> real list \<Rightarrow> int \<Rightarrow> error + scored_row list" where
  "top_k_embeddings db table query_vector top_k =
     (case fetch_records db table None of
        Inl e \<Rightarrow> Inl e
      | Inr records \<Rightarrow>
          (case score_records query_vector records of
             Inl e \<Rightarrow> Inl e
           | Inr scored \<Rightarrow> Inr (map enrich (slice_to (sort_reverse scored) top_k))))"

text \<open>
  \<^verbatim>\<open>
  def prune_embeddings(table, keep):
      records = fetch_records(table)
      if len(records) <= keep:
          return
      to_delete = records[keep:]
      conn = _ensure_database()
      table_name = _normalize_table_name(table)
      for record in to_delete:
          conn.execute(f"DELETE FROM {table_name} WHERE id = ?", (record["id"],))
      conn.commit()
  \<close>
  The result is the database after the call.
\<close>

definition delete_where_id :: "row list \<Rightarrow> string \<Rightarrow> row list" where
  "delete_where_id rows i = filter (\<lambda>r. id_col r \<noteq> i) rows"

definition prune_embeddings :: "database \<Rightarrow> string \<Rightarrow> int \<Rightarrow> error + database" where
  "prune_embeddings db table keep =
     (case fetch_records db table None of
        Inl e \<Rightarrow> Inl e
      | Inr records \<Rightarrow>
          if int (length records) \<le> keep then Inr db
          else (let to_delete = slice_from records keep
                in (case normalize_table_name table of
                      Inl e \<Rightarrow> Inl e
                    | Inr table_name \<Rightarrow>
                        Inr (db(table_name :=
                               foldl delete_where_id (db table_name) (map id_col to_delete))))))"

section \<open>EmbeddingProvider: \<^verbatim>\<open>openai_client.generate_embedding\<close>\<close>

text \<open>
  The fields of \<^verbatim>\<open>Settings\<close> that the subsystem reads. An \<^verbatim>\<open>Optional[str]\<close> is
  falsy when it is \<^verbatim>\<open>None\<close> or empty.
\<close>

record settings =
  offline_mode :: bool
  database_url :: "string option"
  memory_table :: "string option"
  supabase_table_memory :: string
  openai_api_key :: "string option"
  embedding_model :: string

definition falsy :: "string option \<Rightarrow> bool" where
  "falsy s = (case s of None \<Rightarrow> True | Some t \<Rightarrow> t = [])"

text \<open>
  \<^verbatim>\<open>hashlib.sha256(data).digest()\<close> is SHA-256 (FIPS 180-4) on bytes: the message
  is padded to a multiple of 64 bytes with \<open>0x80\<close>, zeros and its length in bits,
  cut into blocks of sixteen big-endian words, and every block is compressed into the
  state of eight words; the digest is the final state as 32 bytes.
\<close>

unbundle bit_operations_syntax

definition sha_K :: "32 word list" where
  "sha_K =
    [0x428a2f98, 0x71374491, 0xb5c0fbcf, 0xe9b5dba5, 0x3956c25b, 0x59f111f1, 0x923f82a4,
     0xab1c5ed5, 0xd807aa98, 0x12835b01, 0x243185be, 0x550c7dc3, 0x72be5d74, 0x80deb1fe,
     0x9bdc06a7, 0xc19bf174, 0xe49b69c1, 0xefbe4786, 0x0fc19dc6, 0x240ca1cc, 0x2de92c6f,
     0x4a7484aa, 0x5cb0a9dc, 0x76f988da, 0x983e5152, 0xa831c66d, 0xb00327c8, 0xbf597fc7,
     0xc6e00bf3, 0xd5a79147, 0x06ca6351, 0x14292967, 0x27b70a85, 0x2e1b2138, 0x4d2c6dfc,
     0x53380d13, 0x650a7354, 0x766a0abb, 0x81c2c92e, 0x92722c85, 0xa2bfe8a1, 0xa81a664b,
     0xc24b8b70, 0xc76c51a3, 0xd192e819, 0xd6990624, 0xf40e3585, 0x106aa070, 0x19a4c116,
     0x1e376c08, 0x2748774c, 0x34b0bcb5, 0x391c0cb3, 0x4ed8aa4a, 0x5b9cca4f, 0x682e6ff3,
     0x748f82ee, 0x78a5636f, 0x84c87814, 0x8cc70208, 0x90befffa, 0xa4506ceb, 0xbef9a3f7,
     0xc67178f2]"

definition sha_H0 :: "32 word list" where
  "sha_H0 =
    [0x6a09e667, 0xbb67ae85, 0x3c6ef372, 0xa54ff53a, 0x510e527f, 0x9b05688c, 0x1f83d9ab,
     0x5be0cd19]"

definition sha_rotr :: "nat \<Rightarrow> 32 word \<Rightarrow> 32 word" where
  "sha_rotr n x = drop_bit n x OR push_bit (32 - n) x"

definition sha_ch :: "32 word \<Rightarrow> 32 word \<Rightarrow> 32 word \<Rightarrow> 32 word" where
  "sha_ch x y z = (x AND y) XOR (NOT x AND z)"

definition sha_maj :: "32 word \<Rightarrow> 32 word \<Rightarrow> 32 word \<Rightarrow> 32 word" where
  "sha_maj x y z = (x AND y) XOR (x AND z) XOR (y AND z)"

definition sha_bsig0 :: "32 word \<Rightarrow> 32 word" where
  "sha_bsig0 x = sha_rotr 2 x XOR sha_rotr 13 x XOR sha_rotr 22 x"

definition sha_bsig1 :: "32 word \<Rightarrow> 32 word" where
  "sha_bsig1 x = sha_rotr 6 x XOR sha_rotr 11 x XOR sha_rotr 25 x"

definition sha_ssig0 :: "32 word \<Rightarrow> 32 word" where
  "sha_ssig0 x = sha_rotr 7 x XOR sha_rotr 18 x XOR drop_bit 3 x"

definition sha_ssig1 :: "32 word \<Rightarrow> 32 word" where
  "sha_ssig1 x = sha_rotr 17 x XOR sha_rotr 19 x XOR drop_bit 10 x"

text \<open>
  The message schedule, newest word first: \<open>sha_schedule n\<close> adds \<open>n\<close> words to the
  sixteen of the block.
\<close>

fun sha_schedule :: "nat \<Rightarrow> 32 word list \<Rightarrow> 32 word list" where
  "sha_schedule 0 ws = ws"
| "sha_schedule (Suc n) ws =
     sha_schedule n ((sha_ssig1 (ws ! 1) + ws ! 6 + sha_ssig0 (ws ! 14) + ws ! 15) # ws)"

fun sha_rounds :: "(32 word \<times> 32 word) list \<Rightarrow> 32 word list \<Rightarrow> 32 word list" where
  "sha_rounds [] st = st"
| "sha_rounds ((k, w) # kws) [a, b, c, d, e, f, g, h] =
     (let t1 = h + sha_bsig1 e + sha_ch e f g + k + w;
          t2 = sha_bsig0 a + sha_maj a b c
      in sha_rounds kws [t1 + t2, a, b, c, d + t1, e, f, g])"
| "sha_rounds kws st = st"

definition sha_compress :: "32 word list \<Rightarrow> 32 word list \<Rightarrow> 32 word list" where
  "sha_compress st block =
     map2 (+) st (sha_rounds (zip sha_K (rev (sha_schedule 48 (rev block)))) st)"

fun sha_words :: "8 word list \<Rightarrow> 32 word list" where
  "sha_words (a # b # c # d # rest) =
     (push_bit 24 (ucast a) OR push_bit 16 (ucast b) OR push_bit 8 (ucast c) OR ucast d)
     # sha_words rest"
| "sha_words rest = []"

definition sha_word_bytes :: "32 word \<Rightarrow> 8 word list" where
  "sha_word_bytes w = [ucast (drop_bit 24 w), ucast (drop_bit 16 w), ucast (drop_bit 8 w), ucast w]"

definition sha_pad :: "8 word list \<Rightarrow> 8 word list" where
  "sha_pad m =
     (let l = length m;
          z = (55 + 64 - l mod 64) mod 64;
          bits = (of_nat (8 * l) :: 64 word)
      in m @ [0x80] @ replicate z 0 @ map (\<lambda>i. ucast (drop_bit (8 * (7 - i)) bits)) [0 ..< 8])"

fun sha_blocks :: "nat \<Rightarrow> 32 word list \<Rightarrow> 32 word list list" where
  "sha_blocks 0 ws = []"
| "sha_blocks (Suc n) ws = take 16 ws # sha_blocks n (drop 16 ws)"

definition sha256 :: "8 word list \<Rightarrow> 8 word list" where
  "sha256 m =
     (let ws = sha_words (sha_pad m)
      in concat (map sha_word_bytes
                   (foldl sha_compress sha_H0 (sha_blocks (length ws div 16) ws))))"

text \<open>
  What lies outside the repository and is not a fixed algorithm: the embeddings endpoint
  of the provider (model and input to a vector, or an exception), and the database
  server.
\<close>

record 'db external =
  embeddings_create :: "string \<Rightarrow> string \<Rightarrow> error + real list"
  pg :: "'db pg_server"

text \<open>
  \<^verbatim>\<open>text.encode("utf-8")\<close> for code points below 256: one byte below 128, two bytes
  from 128 on.
\<close>

definition utf8_encode :: "string \<Rightarrow> 8 word list" where
  "utf8_encode text =
     concat (map (\<lambda>c. let n = (of_char c :: nat)
                       in if n < 128 then [of_nat n]
                          else [of_nat (192 + n div 64), of_nat (128 + n mod 64)]) text)"

text \<open>
  \<^verbatim>\<open>
  def generate_embedding(text):
      settings = get_settings()
      if settings.offline_mode:
          digest = hashlib.sha256(text.encode("utf-8")).digest()
          return [byte / 255.0 for byte in digest[:32]]
      client = get_openai_client()   # RuntimeError when the key is not configured
      response = client.embeddings.create(model=settings.embedding_model, input=text)
      return response.data[0].embedding
  \<close>
\<close>

definition generate_embedding :: "'db external \<Rightarrow> settings \<Rightarrow> string \<Rightarrow> error + real list" where
  "generate_embedding ext conf text =
     (if offline_mode conf
      then Inr (map (\<lambda>byte. real (unat byte) / 255)
                  (take 32 (sha256 (utf8_encode text))))
      else if falsy (openai_api_key conf)
        then Inl (RuntimeError ''OpenAI API key is not configured.'')
      else embeddings_create ext (embedding_model conf) text)"

section \<open>MemoryGateway: \<^verbatim>\<open>pgvector_client.search_embeddings\<close> and the route\<close>

text \<open>
  \<^verbatim>\<open>
  def search_embeddings(table, query_vector, top_k=5):
      settings = get_settings()
      if settings.offline_mode:
          return offline_store.top_k_embeddings(table, query_vector, top_k)
      client = get_pgvector_client()   # RuntimeError when there is no database URL
      return client.search_embeddings(table, query_vector, top_k)
  \<close>
\<close>

definition search_embeddings ::
  "'db external \<Rightarrow> settings \<Rightarrow> database \<Rightarrow> 'db \<Rightarrow> string \<Rightarrow> real list \<Rightarrow> int
     \<Rightarrow> error + scored_row list" where
  "search_embeddings ext conf local_db remote_db table query_vector top_k =
     (if offline_mode conf then top_k_embeddings local_db table query_vector top_k
      else if falsy (database_url conf)
        then Inl (RuntimeError ''Database URL is not configured for pgvector.'')
      else client_search_embeddings (pg ext) remote_db table query_vector top_k)"

text \<open>
  The request and response models of \<^verbatim>\<open>POST /retrieve\<close>. The framework checks the
  constraints of the request's fields before the handler runs and answers 422 when one
  fails:
  \<^verbatim>\<open>
  class MemoryRetrieveRequest(BaseModel):
      query: str = Field(..., min_length=1)
      top_k: int = Field(default=5, ge=1, le=25)
      min_similarity: float | None = Field(default=None, ge=0.0, le=1.0)
  \<close>
\<close>

datatype memory_retrieve_result =
  MemoryRetrieveResult
    (result_id: string) (result_content: string) (result_metadata: metadata)
    (result_created_at: nat) (result_similarity: real)

record memory_retrieve_request =
  query :: string
  top_k :: int
  min_similarity :: "real option"

definition request_valid :: "memory_retrieve_request \<Rightarrow> bool" where
  "request_valid request =
     (1 \<le> length (query request) \<and> 1 \<le> top_k request \<and> top_k request \<le> 25 \<and>
      (case min_similarity request of None \<Rightarrow> True | Some m \<Rightarrow> 0 \<le> m \<and> m \<le> 1))"

text \<open>
  \<^verbatim>\<open>
  async def retrieve_memories(payload):
      if not payload.query.strip():
          raise HTTPException(status_code=400, detail="Query text is required.")
      settings = get_settings()
      table = settings.memory_table or settings.supabase_table_memory or "ti_memory"
      try:
          embedding = await run_in_threadpool(generate_embedding, payload.query)
          results = await run_in_threadpool(search_embeddings, table, list(embedding),
                                            payload.top_k)
      except ValueError as exc:
          raise HTTPException(status_code=400, detail=str(exc)) from exc
      except Exception as exc:
          raise HTTPException(status_code=502, detail="Vector search is unavailable.") from exc
      filtered = []
      min_similarity = payload.min_similarity if payload.min_similarity is not None else 0.0
      for item in results:
          similarity = float(item.get("similarity") or 0.0)
          if payload.min_similarity is not None and similarity < min_similarity:
              continue
          ...
          filtered.append(MemoryRetrieveResult(id=..., content=..., metadata=...,
                                               created_at=..., similarity=similarity))
      return filtered
  \<close>
  \<open>filter_results\<close> is the second loop and \<open>to_result\<close> the response item it
  builds.
\<close>

definition memory_table_name :: "settings \<Rightarrow> string" where
  "memory_table_name conf =
     (let fallback = (if supabase_table_memory conf \<noteq> [] then supabase_table_memory conf
                      else ''ti_memory'')
      in case memory_table conf of
           None \<Rightarrow> fallback
         | Some t \<Rightarrow> if t \<noteq> [] then t else fallback)"

definition to_result :: "scored_row \<Rightarrow> memory_retrieve_result" where
  "to_result item =
     MemoryRetrieveResult (id_col item) (content item) (metadata item) (created_at item)
       (similarity item)"

fun filter_results :: "real option \<Rightarrow> scored_row list \<Rightarrow> memory_retrieve_result list" where
  "filter_results threshold [] = []"
| "filter_results threshold (item # results) =
     (if (case threshold of None \<Rightarrow> False | Some m \<Rightarrow> similarity item < m)
      then filter_results threshold results
      else to_result item # filter_results threshold results)"

text \<open>
  The rule of the specification for the local store, in its own words: the threshold
  filter is applied to the full ranked list, and the result is truncated to \<open>k\<close>.
\<close>

definition threshold_then_truncate :: "real \<Rightarrow> int \<Rightarrow> scored_row list \<Rightarrow> scored_row list" where
  "threshold_then_truncate m k ranked = slice_to (filter (\<lambda>item. m \<le> similarity item) ranked) k"

definition retrieve_memories ::
  "'db external \<Rightarrow> settings \<Rightarrow> database \<Rightarrow> 'db \<Rightarrow> memory_retrieve_request
     \<Rightarrow> error + memory_retrieve_result list" where
  "retrieve_memories ext conf local_db remote_db request =
     (if \<not> request_valid request then Inl RequestValidationError
      else if strip (query request) = []
        then Inl (HTTPException 400 ''Query text is required.'')
      else
        (case (case generate_embedding ext conf (query request) of
                 Inl e \<Rightarrow> Inl e
               | Inr embedding' \<Rightarrow>
                   search_embeddings ext conf local_db remote_db (memory_table_name conf)
                     embedding' (top_k request)) of
           Inl (ValueError msg) \<Rightarrow> Inl (HTTPException 400 msg)
         | Inl e \<Rightarrow> Inl (HTTPException 502 ''Vector search is unavailable.'')
         | Inr results \<Rightarrow> Inr (filter_results (min_similarity request) results)))"

section \<open>Example stores\<close>

text \<open>
  Local stores built by \<^verbatim>\<open>store_embedding\<close> from the empty database: two records
  with the same vector stored one hundred seconds apart, the same two stored within one
  second, and three records of the memory table. \<open>stored\<close> is the row that
  \<^verbatim>\<open>store_embedding\<close> writes.
\<close>

definition empty_db :: database where
  "empty_db = (\<lambda>table. [])"

definition db_later :: database where
  "db_later =
     snd (store_embedding
            (snd (store_embedding empty_db ''a'' 100 ''embeddings'' ''first'' [1] []))
            ''b'' 200 ''embeddings'' ''second'' [1] [])"

definition db_same_second :: database where
  "db_same_second =
     snd (store_embedding
            (snd (store_embedding empty_db ''a'' 100 ''embeddings'' ''first'' [1] []))
            ''b'' 100 ''embeddings'' ''second'' [1] [])"

definition db_three :: database where
  "db_three =
     snd (store_embedding
       (snd (store_embedding
          (snd (store_embedding empty_db ''a'' 100 ''ti_memory'' ''kia ora'' [1, 0] []))
          ''b'' 200 ''ti_memory'' ''hello'' [0, 1] []))
       ''c'' 300 ''ti_memory'' ''kia ora koutou'' [1, 0] [])"

definition stored :: "string \<Rightarrow> string \<Rightarrow> real list \<Rightarrow> nat \<Rightarrow> row" where
  "stored i c v t =
     \<lparr>id_col = i, content = c, metadata = [], embedding = Vector v, status = None,
      created_at = t\<rparr>"

text \<open>
  Settings for the two modes, and the external services of the examples: the provider
  answers every request with the vector \<open>[1, 0]\<close>. \<open>kia_ora_embedding\<close> is the
  offline embedding of the text \<^verbatim>\<open>kia ora\<close>, and \<open>db_kia_ora\<close> holds that text
  twice, with a zero vector stored in between.
\<close>

definition offline_settings :: settings where
  "offline_settings =
     \<lparr>offline_mode = True, database_url = None, memory_table = None,
      supabase_table_memory = ''ti_memory'', openai_api_key = None,
      embedding_model = ''text-embedding-3-small''\<rparr>"

definition live_settings :: settings where
  "live_settings =
     \<lparr>offline_mode = False, database_url = Some ''postgresql://den'', memory_table = None,
      supabase_table_memory = ''ti_memory'', openai_api_key = Some ''sk-test'',
      embedding_model = ''text-embedding-3-small''\<rparr>"

definition demo_external :: "(pg_row list) external" where
  "demo_external = \<lparr>embeddings_create = (\<lambda>model text. Inr [1, 0]), pg = demo_server\<rparr>"

definition kia_ora_digest :: "8 word list" where
  "kia_ora_digest =
     [0xe7, 0x2b, 0xb8, 0x9c, 0x01, 0x16, 0x1d, 0x89, 0x41, 0x62, 0x71, 0x74, 0x2c, 0xa3, 0xe7,
      0xbd, 0xe3, 0xce, 0xa2, 0xd8, 0x62, 0x1c, 0x2d, 0xb0, 0x3d, 0x1d, 0x38, 0x87, 0x24, 0x1b,
      0x30, 0x89]"

definition kia_ora_embedding :: "real list" where
  "kia_ora_embedding = map (\<lambda>byte. real (unat byte) / 255) kia_ora_digest"

definition db_kia_ora :: database where
  "db_kia_ora =
     snd (store_embedding
       (snd (store_embedding
          (snd (store_embedding empty_db ''a'' 100 ''ti_memory'' ''kia ora'' kia_ora_embedding []))
          ''z'' 200 ''ti_memory'' ''blank'' (replicate 32 0) []))
       ''b'' 300 ''ti_memory'' ''kia ora'' kia_ora_embedding [])"

text \<open>
  A request for the text \<^verbatim>\<open>kia ora\<close>, and the tuples a remote table returns for
  the examples, nearest first.
\<close>

definition demo_request :: "int \<Rightarrow> real option \<Rightarrow> memory_retrieve_request" where
  "demo_request k threshold = \<lparr>query = ''kia ora'', top_k = k, min_similarity = threshold\<rparr>"

definition remote_rows :: "pg_row list" where
  "remote_rows = [(''m1'', ''kia ora'', [], 100, 9 / 10), (''m2'', ''hello'', [], 200, 2 / 5)]"

section \<open>Properties of the similarity engine\<close>

lemma sum_squares_nonneg: "0 \<le> sum_list (map (\<lambda>x. x * x) (a :: real list))"
  by (induction a) simp_all

lemma sum_squares_zero_iff:
  "sum_list (map (\<lambda>x. x * x) (a :: real list)) = 0 \<longleftrightarrow> (\<forall>x \<in> set a. x = 0)"
proof (induction a)
  case Nil
  show ?case by simp
next
  case (Cons x xs)
  have "x * x + sum_list (map (\<lambda>x. x * x) xs) = 0
        \<longleftrightarrow> x * x = 0 \<and> sum_list (map (\<lambda>x. x * x) xs) = 0"
    using sum_squares_nonneg [of xs] by (simp add: add_nonneg_eq_0_iff)
  with Cons show ?case by simp
qed

lemma norm_of_zero_iff: "norm_of a = 0 \<longleftrightarrow> (\<forall>x \<in> set a. x = 0)"
  by (simp add: norm_of_def sum_squares_zero_iff)

lemma dot_product_self: "dot_product a a = sum_list (map (\<lambda>x. x * x) a)"
  by (induction a) (simp_all add: dot_product_def)

lemma norm_of_square: "norm_of a * norm_of a = sum_list (map (\<lambda>x. x * x) a)"
  by (simp add: norm_of_def sum_squares_nonneg)

lemma cosine_similarity_self:
  assumes nz: "\<exists>x \<in> set a. x \<noteq> 0"
  shows "cosine_similarity a a = Inr 1"
proof -
  from nz have ne: "a \<noteq> []" by auto
  from nz have n0: "norm_of a \<noteq> 0" by (simp add: norm_of_zero_iff)
  have "dot_product a a = norm_of a * norm_of a"
    by (simp only: dot_product_self norm_of_square)
  with n0 have q: "dot_product a a / (norm_of a * norm_of a) = 1"
    by simp
  have "cosine_similarity a a = Inr (dot_product a a / (norm_of a * norm_of a))"
    using ne n0 by (simp add: cosine_similarity_def)
  then show ?thesis by (simp only: q)
qed

lemma cosine_similarity_zero:
  assumes "length a = length b" and "(\<forall>x \<in> set a. x = 0) \<or> (\<forall>x \<in> set b. x = 0)"
  shows "cosine_similarity a b = Inr 0"
proof -
  from assms(2) have "norm_of a = 0 \<or> norm_of b = 0" by (simp add: norm_of_zero_iff)
  with assms(1) show ?thesis by (auto simp: cosine_similarity_def)
qed



text \<open>
  C6, as stated, fails when one vector is empty: the emptiness guard comes before the
  length check and returns 0.
\<close>

theorem cosine_similarity_mismatch_counterexample:
  "length ([] :: real list) \<noteq> length [1 :: real] \<and> cosine_similarity [] [1] = Inr 0"
  by (simp add: cosine_similarity_def)

text \<open>
  C6, amended. Two non-empty vectors of different lengths raise the
  \<^verbatim>\<open>ValueError\<close> of the length check; when one of the two is empty the result is
  the value 0, whatever the other's length.
\<close>

theorem cosine_similarity_mismatch:
  "(a \<noteq> [] \<and> b \<noteq> [] \<and> length a \<noteq> length b \<longrightarrow>
      cosine_similarity a b =
        Inl (ValueError ''Vectors must be the same length for cosine similarity.'')) \<and>
   (a = [] \<or> b = [] \<longrightarrow> cosine_similarity a b = Inr 0)"
  by (simp add: cosine_similarity_def)

theorem cosine_similarity_mismatch_witness:
  "[1, 2 :: real] \<noteq> [] \<and> [1 :: real] \<noteq> [] \<and> length [1, 2 :: real] \<noteq> length [1 :: real] \<and>
   cosine_similarity [1, 2] [1] =
     Inl (ValueError ''Vectors must be the same length for cosine similarity.'') \<and>
   cosine_similarity [] [1, 2] = Inr 0"
  using cosine_similarity_mismatch [of "[1, 2]" "[1]"] cosine_similarity_mismatch [of "[]" "[1, 2]"]
  by simp

section \<open>Properties of the retry executor\<close>

lemma range_three: "[0 ..< 3] = [0, Suc 0, Suc (Suc 0)]"
  by (simp add: eval_nat_numeral upt_rec)

text \<open>
  C4. With three attempts the executor calls the operation until it succeeds; after the
  first failure it sleeps \<open>delay\<close>, after the second \<open>2 * delay\<close> (that is
  \<open>delay * 2 ^ (attempt - 1)\<close> for attempts counted from one), and when the third
  call fails too it raises that third exception itself, with no further sleep. The
  decorators of the module use \<open>delay = 0.5\<close>.
\<close>

theorem retry_three_attempts:
  "(fn s0 = (Inr v, s1) \<longrightarrow> retry 3 delay fn s0 = (Returned v, s1, [])) \<and>
   (fn s0 = (Inl e1, s1) \<and> fn s1 = (Inr v, s2) \<longrightarrow>
      retry 3 delay fn s0 = (Returned v, s2, [delay])) \<and>
   (fn s0 = (Inl e1, s1) \<and> fn s1 = (Inl e2, s2) \<and> fn s2 = (Inr v, s3) \<longrightarrow>
      retry 3 delay fn s0 = (Returned v, s3, [delay, 2 * delay])) \<and>
   (fn s0 = (Inl e1, s1) \<and> fn s1 = (Inl e2, s2) \<and> fn s2 = (Inl e3, s3) \<longrightarrow>
      retry 3 delay fn s0 = (Raised e3, s3, [delay, 2 * delay]))"
  by (simp add: retry_def range_three)

theorem retry_three_attempts_witness:
  "retry 3 (1 / 2) flaky 0 = (Returned 42, 3, [1 / 2, 1]) \<and>
   retry 3 (1 / 2) broken 0 = (Raised 2, 3, [1 / 2, 1])"
  using retry_three_attempts
          [where fn = flaky and ?s0.0 = 0 and ?s1.0 = 1 and ?s2.0 = 2 and ?s3.0 = 3
             and ?e1.0 = "''first''" and ?e2.0 = "''second''" and v = 42 and delay = "1 / 2"]
        retry_three_attempts
          [where fn = broken and ?s0.0 = 0 and ?s1.0 = 1 and ?s2.0 = 2 and ?s3.0 = 3
             and ?e1.0 = 0 and ?e2.0 = 1 and ?e3.0 = 2 and delay = "1 / 2"]
  by (simp add: flaky_def broken_def)

section \<open>Properties of the identifier check\<close>











lemmas identifier_eval =
  identifier_parts_def strip_def isspace_def TABLE_NAME_PATTERN_match_def
  is_letter_or_underscore_def is_word_char_def not_permitted_def




section \<open>Properties of the local store\<close>

lemma mset_order_by: "mset (order_by_created_at_desc rows) = mset rows"
  by (simp add: order_by_created_at_desc_def)

lemma sorted_order_by:
  "sorted_wrt (\<lambda>a b. created_at b \<le> created_at a) (order_by_created_at_desc rows)"
proof -
  have "sorted (map (\<lambda>r. - int (created_at r)) (order_by_created_at_desc rows))"
    by (simp add: order_by_created_at_desc_def)
  then show ?thesis by (simp add: sorted_map)
qed

lemmas table_eval =
  normalize_table_name_def SUPPORTED_TABLES_def strip_def isspace_def not_supported_def

lemma normalize_embeddings: "normalize_table_name ''embeddings'' = Inr ''embeddings''"
  by (simp add: table_eval)

lemma normalize_ti_memory: "normalize_table_name ''ti_memory'' = Inr ''ti_memory''"
  by (simp add: table_eval)

text \<open>The primary key: an insert keeps the ids of a table distinct.\<close>

lemma insert_record_distinct_ids:
  assumes "distinct (map id_col (db t))"
  shows "distinct (map id_col (snd (insert_record db uuid now table item) t))"
proof (cases "normalize_table_name table")
  case (Inl e)
  with assms show ?thesis by (simp add: insert_record_def)
next
  case (Inr table_name)
  with assms show ?thesis
    by (auto simp: insert_record_def Let_def)
qed

lemma foldl_delete_where_id:
  "foldl delete_where_id rows ids = filter (\<lambda>r. id_col r \<notin> set ids) rows"
proof (induction ids arbitrary: rows)
  case Nil
  show ?case by simp
next
  case (Cons i ids)
  have "foldl delete_where_id rows (i # ids) = foldl delete_where_id (delete_where_id rows i) ids"
    by simp
  also have "\<dots> = filter (\<lambda>r. id_col r \<notin> set ids) (delete_where_id rows i)"
    by (rule Cons)
  also have "\<dots> = filter (\<lambda>r. id_col r \<notin> set (i # ids)) rows"
    by (simp add: delete_where_id_def conj_commute)
  finally show ?case .
qed

lemma filter_append_left:
  "f ` set as \<inter> f ` set bs = {} \<Longrightarrow> filter (\<lambda>x. f x \<in> f ` set as) (as @ bs) = as"
  by (auto simp: filter_empty_conv filter_id_conv)

lemma filter_append_right:
  "f ` set as \<inter> f ` set bs = {} \<Longrightarrow> filter (\<lambda>x. f x \<in> f ` set bs) (as @ bs) = bs"
  by (auto simp: filter_empty_conv filter_id_conv)

lemma take_drop_disjoint:
  assumes "distinct (map f xs)"
  shows "f ` set (take k xs) \<inter> f ` set (drop k xs) = {}"
proof -
  have "map f xs = map f (take k xs) @ map f (drop k xs)"
    by (metis append_take_drop_id map_append)
  with assms have "distinct (map f (take k xs) @ map f (drop k xs))" by simp
  then show ?thesis by simp
qed

lemma filter_take_distinct:
  assumes "distinct (map f xs)"
  shows "filter (\<lambda>x. f x \<in> f ` set (take k xs)) xs = take k xs"
proof -
  have "filter (\<lambda>x. f x \<in> f ` set (take k xs)) (take k xs @ drop k xs) = take k xs"
    by (rule filter_append_left) (rule take_drop_disjoint [OF assms])
  then show ?thesis by (simp only: append_take_drop_id)
qed

lemma filter_drop_distinct:
  assumes "distinct (map f xs)"
  shows "filter (\<lambda>x. f x \<in> f ` set (drop k xs)) xs = drop k xs"
proof -
  have "filter (\<lambda>x. f x \<in> f ` set (drop k xs)) (take k xs @ drop k xs) = drop k xs"
    by (rule filter_append_right) (rule take_drop_disjoint [OF assms])
  then show ?thesis by (simp only: append_take_drop_id)
qed

lemma distinct_ids_order_by:
  "distinct (map id_col rows) \<Longrightarrow> distinct (map id_col (order_by_created_at_desc rows))"
proof -
  assume d: "distinct (map id_col rows)"
  have "mset (map id_col (order_by_created_at_desc rows)) = mset (map id_col rows)"
    by (simp add: mset_order_by)
  then show ?thesis using d by (metis mset_eq_imp_distinct_iff)
qed

lemma set_order_by: "set (order_by_created_at_desc rows) = set rows"
  by (simp add: order_by_created_at_desc_def)

lemma length_order_by: "length (order_by_created_at_desc rows) = length rows"
  by (simp add: order_by_created_at_desc_def)

lemma order_by_strictly_increasing:
  assumes "sorted_wrt (<) (map created_at rows)"
  shows "order_by_created_at_desc rows = rev rows"
  unfolding order_by_created_at_desc_def
proof (rule sort_key_inj_key_eq)
  show "mset rows = mset (rev rows)" by simp
  from assms have "distinct (map created_at rows)"
    by (simp add: strict_sorted_iff)
  then have "inj_on created_at (set rows)" by (simp add: distinct_map)
  then show "inj_on (\<lambda>r. - int (created_at r)) (set rows)"
    by (auto simp: inj_on_def)
  from assms have "sorted_wrt (\<lambda>a b. created_at a < created_at b) rows"
    by (simp add: sorted_wrt_map)
  then have "sorted_wrt (\<lambda>a b. - int (created_at b) \<le> - int (created_at a)) rows"
    by (rule sorted_wrt_mono_rel [rotated]) simp
  then show "sorted (map (\<lambda>r. - int (created_at r)) (rev rows))"
    by (simp add: sorted_map sorted_wrt_rev)
qed

lemma kept_after_prune:
  assumes d: "distinct (map id_col rows)"
  shows "filter (\<lambda>r. id_col r \<notin> set (map id_col (drop k (order_by_created_at_desc rows)))) rows =
         filter (\<lambda>r. id_col r \<in> id_col ` set (take k (order_by_created_at_desc rows))) rows"
proof (rule filter_cong [OF refl])
  fix r
  assume "r \<in> set rows"
  then have "r \<in> set (take k (order_by_created_at_desc rows)) \<union>
                 set (drop k (order_by_created_at_desc rows))"
    by (metis set_order_by set_append append_take_drop_id)
  moreover have "id_col ` set (take k (order_by_created_at_desc rows)) \<inter>
                 id_col ` set (drop k (order_by_created_at_desc rows)) = {}"
    by (rule take_drop_disjoint) (rule distinct_ids_order_by [OF d])
  ultimately show "(id_col r \<notin> set (map id_col (drop k (order_by_created_at_desc rows)))) =
                   (id_col r \<in> id_col ` set (take k (order_by_created_at_desc rows)))"
    by auto
qed

lemma length_kept:
  assumes d: "distinct (map id_col rows)"
  shows "length (filter (\<lambda>r. id_col r \<in> id_col ` set (take k (order_by_created_at_desc rows))) rows)
         = min k (length rows)"
proof -
  let ?P = "\<lambda>r. id_col r \<in> id_col ` set (take k (order_by_created_at_desc rows))"
  have "mset (filter ?P rows) = mset (filter ?P (order_by_created_at_desc rows))"
    by (simp add: mset_order_by)
  also have "filter ?P (order_by_created_at_desc rows) = take k (order_by_created_at_desc rows)"
    by (rule filter_take_distinct) (rule distinct_ids_order_by [OF d])
  finally have "length (filter ?P rows) = length (take k (order_by_created_at_desc rows))"
    by (rule mset_eq_length)
  then show ?thesis by (simp add: length_order_by)
qed

lemma prune_embeddings_result:
  assumes nt: "normalize_table_name table = Inr table_name"
    and d: "distinct (map id_col (db table_name))"
    and k: "0 \<le> keep"
  shows "prune_embeddings db table keep =
           Inr (db(table_name :=
                  filter (\<lambda>r. id_col r \<in> id_col ` set (take (nat keep)
                                  (order_by_created_at_desc (db table_name))))
                    (db table_name)))"
proof (cases "int (length (db table_name)) \<le> keep")
  case True
  then have "take (nat keep) (order_by_created_at_desc (db table_name)) =
             order_by_created_at_desc (db table_name)"
    by (simp add: length_order_by)
  then have "filter (\<lambda>r. id_col r \<in> id_col ` set (take (nat keep)
                (order_by_created_at_desc (db table_name)))) (db table_name) = db table_name"
    by (simp add: set_order_by)
  moreover from True nt have "prune_embeddings db table keep = Inr db"
    by (simp add: prune_embeddings_def fetch_records_def length_order_by)
  ultimately show ?thesis by simp
next
  case False
  with nt k have "prune_embeddings db table keep =
      Inr (db(table_name := filter (\<lambda>r. id_col r \<notin> set (map id_col (drop (nat keep)
              (order_by_created_at_desc (db table_name))))) (db table_name)))"
    by (simp add: prune_embeddings_def fetch_records_def length_order_by slice_from_def
          foldl_delete_where_id)
  then show ?thesis by (simp only: kept_after_prune [OF d])
qed

lemma kept_most_recent:
  assumes d: "distinct (map id_col rows)" and inc: "sorted_wrt (<) (map created_at rows)"
  shows "filter (\<lambda>r. id_col r \<in> id_col ` set (take k (order_by_created_at_desc rows))) rows
         = drop (length rows - k) rows"
proof -
  have "take k (order_by_created_at_desc rows) = rev (drop (length rows - k) rows)"
    by (simp add: order_by_strictly_increasing [OF inc] take_rev)
  then have "set (take k (order_by_created_at_desc rows)) = set (drop (length rows - k) rows)"
    by simp
  then show ?thesis by (simp only: filter_drop_distinct [OF d])
qed

lemma db_later_rows:
  "db_later ''embeddings'' = [stored ''a'' ''first'' [1] 100, stored ''b'' ''second'' [1] 200]"
  by (simp add: db_later_def empty_db_def store_embedding_def insert_record_def
        normalize_embeddings stored_def Let_def)

lemma db_same_second_rows:
  "db_same_second ''embeddings'' =
     [stored ''a'' ''first'' [1] 100, stored ''b'' ''second'' [1] 100]"
  by (simp add: db_same_second_def empty_db_def store_embedding_def insert_record_def
        normalize_embeddings stored_def Let_def)

lemma db_three_rows:
  "db_three ''ti_memory'' =
     [stored ''a'' ''kia ora'' [1, 0] 100, stored ''b'' ''hello'' [0, 1] 200,
      stored ''c'' ''kia ora koutou'' [1, 0] 300]"
  by (simp add: db_three_def empty_db_def store_embedding_def insert_record_def
        normalize_ti_memory stored_def Let_def)

lemma order_later:
  "order_by_created_at_desc (db_later ''embeddings'') =
     [stored ''b'' ''second'' [1] 200, stored ''a'' ''first'' [1] 100]"
  by (simp add: db_later_rows order_by_created_at_desc_def stored_def)

lemma order_three:
  "order_by_created_at_desc (db_three ''ti_memory'') =
     [stored ''c'' ''kia ora koutou'' [1, 0] 300, stored ''b'' ''hello'' [0, 1] 200,
      stored ''a'' ''kia ora'' [1, 0] 100]"
  by (simp add: db_three_rows order_by_created_at_desc_def stored_def)

text \<open>
  C10. For a supported table \<^verbatim>\<open>fetch_records(table, 0)\<close> returns what
  \<^verbatim>\<open>fetch_records(table)\<close> returns, every record of the table (newest first), and
  for \<open>n > 0\<close> it returns the first \<open>n\<close> of them, so at most \<open>n\<close> records.
\<close>

theorem fetch_records_limit_zero:
  "(normalize_table_name table = Inr table_name \<longrightarrow>
      fetch_records db table (Some 0) = Inr (order_by_created_at_desc (db table_name)) \<and>
      fetch_records db table None = Inr (order_by_created_at_desc (db table_name)) \<and>
      mset (order_by_created_at_desc (db table_name)) = mset (db table_name)) \<and>
   (normalize_table_name table = Inr table_name \<and> 0 < n \<longrightarrow>
      fetch_records db table (Some n) =
        Inr (take (nat n) (order_by_created_at_desc (db table_name))) \<and>
      length (take (nat n) (order_by_created_at_desc (db table_name))) \<le> nat n)"
  by (simp add: fetch_records_def sqlite_limit_def mset_order_by)

theorem fetch_records_limit_zero_witness:
  "fetch_records db_three ''ti_memory'' (Some 0) =
     Inr [stored ''c'' ''kia ora koutou'' [1, 0] 300, stored ''b'' ''hello'' [0, 1] 200,
          stored ''a'' ''kia ora'' [1, 0] 100] \<and>
   fetch_records db_three ''ti_memory'' (Some 2) =
     Inr [stored ''c'' ''kia ora koutou'' [1, 0] 300, stored ''b'' ''hello'' [0, 1] 200]"
  using fetch_records_limit_zero [of "''ti_memory''" "''ti_memory''" db_three 2]
  by (simp add: normalize_ti_memory order_three)

text \<open>
  C8, as stated, fails for records written within the same second: they have the same
  \<^verbatim>\<open>created_at\<close>, \<^verbatim>\<open>fetch_records\<close> returns them in rowid order, and the record
  that is kept is the one inserted first.
\<close>

theorem prune_counterexample:
  "map id_col (db_same_second ''embeddings'') = [''a'', ''b''] \<and>
   map_sum id (\<lambda>db'. map id_col (db' ''embeddings''))
     (prune_embeddings db_same_second ''embeddings'' 1) = Inr [''a'']"
  by (simp add: prune_embeddings_def fetch_records_def normalize_embeddings
        order_by_created_at_desc_def slice_from_def delete_where_id_def db_same_second_rows
        stored_def)

text \<open>
  C8, amended. For a supported table whose rows have distinct ids and \<open>keep \<ge> 0\<close>,
  \<^verbatim>\<open>prune_embeddings\<close> returns normally, changes no other table, and leaves exactly
  \<open>min keep n\<close> of the \<open>n\<close> records: those that come first in the order of
  \<^verbatim>\<open>fetch_records\<close> (\<^verbatim>\<open>created_at\<close> descending). When \<^verbatim>\<open>created_at\<close>
  increases strictly with insertion, these are the \<open>keep\<close> most recently inserted
  records.
\<close>

theorem prune_embeddings_keeps_latest:
  "normalize_table_name table = Inr table_name \<and> distinct (map id_col (db table_name)) \<and>
   0 \<le> keep \<longrightarrow>
     (\<exists>db'. prune_embeddings db table keep = Inr db' \<and>
        (\<forall>t. t \<noteq> table_name \<longrightarrow> db' t = db t) \<and>
        db' table_name =
          filter (\<lambda>r. id_col r \<in> id_col ` set (take (nat keep)
                          (order_by_created_at_desc (db table_name))))
            (db table_name) \<and>
        length (db' table_name) = min (nat keep) (length (db table_name)) \<and>
        (sorted_wrt (<) (map created_at (db table_name)) \<longrightarrow>
           db' table_name = drop (length (db table_name) - nat keep) (db table_name)))"
proof
  assume h: "normalize_table_name table = Inr table_name \<and>
             distinct (map id_col (db table_name)) \<and> 0 \<le> keep"
  then have d: "distinct (map id_col (db table_name))" by simp
  let ?kept = "filter (\<lambda>r. id_col r \<in> id_col ` set (take (nat keep)
                          (order_by_created_at_desc (db table_name)))) (db table_name)"
  from h have "prune_embeddings db table keep = Inr (db(table_name := ?kept))"
    by (simp add: prune_embeddings_result)
  moreover have "length ?kept = min (nat keep) (length (db table_name))"
    by (rule length_kept [OF d])
  moreover have "sorted_wrt (<) (map created_at (db table_name)) \<longrightarrow>
                 ?kept = drop (length (db table_name) - nat keep) (db table_name)"
    using kept_most_recent [OF d] by blast
  ultimately show "\<exists>db'. prune_embeddings db table keep = Inr db' \<and>
        (\<forall>t. t \<noteq> table_name \<longrightarrow> db' t = db t) \<and>
        db' table_name = ?kept \<and>
        length (db' table_name) = min (nat keep) (length (db table_name)) \<and>
        (sorted_wrt (<) (map created_at (db table_name)) \<longrightarrow>
           db' table_name = drop (length (db table_name) - nat keep) (db table_name))"
    by simp
qed

theorem prune_embeddings_keeps_latest_witness:
  "map_sum id (\<lambda>db'. map id_col (db' ''ti_memory''))
     (prune_embeddings db_three ''ti_memory'' 2) = Inr [''b'', ''c'']"
proof -
  have "normalize_table_name ''ti_memory'' = Inr ''ti_memory'' \<and>
        distinct (map id_col (db_three ''ti_memory'')) \<and> (0 :: int) \<le> 2"
    by (simp add: normalize_ti_memory db_three_rows stored_def)
  with prune_embeddings_keeps_latest [of "''ti_memory''" "''ti_memory''" db_three 2]
  obtain db' where res: "prune_embeddings db_three ''ti_memory'' 2 = Inr db'"
    and rec: "sorted_wrt (<) (map created_at (db_three ''ti_memory'')) \<longrightarrow>
              db' ''ti_memory'' =
                drop (length (db_three ''ti_memory'') - nat 2) (db_three ''ti_memory'')"
    by blast
  have "sorted_wrt (<) (map created_at (db_three ''ti_memory''))"
    by (simp add: db_three_rows stored_def)
  with rec have "db' ''ti_memory'' = drop 1 (db_three ''ti_memory'')"
    by (simp add: db_three_rows)
  with res show ?thesis by (simp add: db_three_rows stored_def)
qed

section \<open>Properties of the local search\<close>

lemma score_records_rows:
  "score_records q rs = Inr scored \<Longrightarrow>
     map snd scored = filter (\<lambda>r. embedding r \<noteq> NotSequence) rs"
proof (induction rs arbitrary: scored)
  case Nil
  then show ?case by simp
next
  case (Cons r rs)
  then show ?case
    by (cases "embedding r") (auto split: sum.splits)
qed

lemma score_records_scores:
  "score_records q rs = Inr scored \<Longrightarrow> item \<in> set scored \<Longrightarrow>
     \<exists>v. embedding (snd item) = Vector v \<and> cosine_similarity q v = Inr (fst item)"
proof (induction rs arbitrary: scored)
  case Nil
  then show ?case by simp
next
  case (Cons r rs)
  then show ?case
    by (cases "embedding r") (auto split: sum.splits)
qed

lemma cosine_similarity_same_length:
  "length a = length b \<Longrightarrow> \<exists>s. cosine_similarity a b = Inr s"
  by (simp add: cosine_similarity_def)

lemma score_records_total:
  "(\<And>r v. r \<in> set rs \<Longrightarrow> embedding r = Vector v \<Longrightarrow> length v = length q) \<Longrightarrow>
     \<exists>scored. score_records q rs = Inr scored"
proof (induction rs)
  case Nil
  show ?case by simp
next
  case (Cons r rs)
  then obtain scored where sc: "score_records q rs = Inr scored" by auto
  show ?case
  proof (cases "embedding r")
    case NotSequence
    with sc show ?thesis by simp
  next
    case (Vector v)
    with Cons.prems [of r v] have "length q = length v" by simp
    then obtain s where "cosine_similarity q v = Inr s"
      using cosine_similarity_same_length by blast
    with Vector sc show ?thesis by simp
  qed
qed

lemma mset_sort_reverse: "mset (sort_reverse scored) = mset scored"
  by (simp add: sort_reverse_def)

lemma sorted_sort_reverse: "sorted_wrt (\<lambda>a b. fst b \<le> fst a) (sort_reverse scored)"
proof -
  have "sorted (map (\<lambda>item. - fst item) (sort_reverse scored))"
    by (simp add: sort_reverse_def)
  then show ?thesis by (simp add: sorted_map)
qed

lemma sort_reverse_stable:
  "filter (\<lambda>item. fst item = s) (sort_reverse scored) = filter (\<lambda>item. fst item = s) scored"
proof -
  have "filter (\<lambda>item. - fst item = - s) (sort_reverse scored) =
        filter (\<lambda>item. - fst item = - s) scored"
    unfolding sort_reverse_def by (rule sort_key_stable)
  then show ?thesis by simp
qed

lemma ties_in_fetch_order:
  assumes "score_records q (order_by_created_at_desc rows) = Inr scored"
  shows "sorted_wrt (\<lambda>a b. created_at (snd b) \<le> created_at (snd a))
           (filter (\<lambda>item. fst item = s) (sort_reverse scored))"
proof -
  have "sorted_wrt (\<lambda>a b. created_at b \<le> created_at a)
          (filter (\<lambda>r. embedding r \<noteq> NotSequence) (order_by_created_at_desc rows))"
    by (rule sorted_wrt_filter) (rule sorted_order_by)
  then have "sorted_wrt (\<lambda>a b. created_at b \<le> created_at a) (map snd scored)"
    by (simp only: score_records_rows [OF assms])
  then have "sorted_wrt (\<lambda>a b. created_at (snd b) \<le> created_at (snd a)) scored"
    by (simp add: sorted_wrt_map)
  then have "sorted_wrt (\<lambda>a b. created_at (snd b) \<le> created_at (snd a))
               (filter (\<lambda>item. fst item = s) scored)"
    by (rule sorted_wrt_filter)
  then show ?thesis by (simp only: sort_reverse_stable)
qed

lemmas cosine_eval = cosine_similarity_def dot_product_def norm_of_def

lemma score_later:
  "score_records [1] (order_by_created_at_desc (db_later ''embeddings'')) =
     Inr [(1, stored ''b'' ''second'' [1] 200), (1, stored ''a'' ''first'' [1] 100)]"
  by (simp add: order_later stored_def cosine_eval)

lemma score_three:
  "score_records [1, 0] (order_by_created_at_desc (db_three ''ti_memory'')) =
     Inr [(1, stored ''c'' ''kia ora koutou'' [1, 0] 300), (0, stored ''b'' ''hello'' [0, 1] 200),
          (1, stored ''a'' ''kia ora'' [1, 0] 100)]"
  by (simp add: order_three stored_def cosine_eval)

text \<open>
  C2, as stated, fails on the tie rule: of two records with equal scores stored at
  different times, the later-inserted one is ahead, and it is the one retained when
  \<open>k = 1\<close>.
\<close>

theorem top_k_ties_counterexample:
  "map id_col (db_later ''embeddings'') = [''a'', ''b''] \<and>
   map_sum id (map (\<lambda>r. (id_col r, similarity r)))
     (top_k_embeddings db_later ''embeddings'' [1] 2) = Inr [(''b'', 1), (''a'', 1)] \<and>
   map_sum id (map id_col) (top_k_embeddings db_later ''embeddings'' [1] 1) = Inr [''b'']"
proof -
  have "map id_col (db_later ''embeddings'') = [''a'', ''b'']"
    by (simp add: db_later_rows stored_def)
  moreover have "map_sum id (map (\<lambda>r. (id_col r, similarity r)))
     (top_k_embeddings db_later ''embeddings'' [1] 2) = Inr [(''b'', 1), (''a'', 1)]"
    by (simp add: top_k_embeddings_def fetch_records_def normalize_embeddings score_later
          sort_reverse_def slice_to_def enrich_def stored_def)
  moreover have "map_sum id (map id_col) (top_k_embeddings db_later ''embeddings'' [1] 1) =
                 Inr [''b'']"
    by (simp add: top_k_embeddings_def fetch_records_def normalize_embeddings score_later
          sort_reverse_def slice_to_def enrich_def stored_def)
  ultimately show ?thesis by simp
qed

text \<open>
  C2, amended. For a supported table \<^verbatim>\<open>top_k_embeddings\<close> returns normally when
  every stored vector has the length of the query. It scores every fetched record whose
  embedding is a sequence with \<^verbatim>\<open>cosine_similarity\<close>, ranks them by descending
  score (a permutation of the scored records) and returns the first \<open>k\<close> with their
  scores. Records with equal scores keep the order in which \<^verbatim>\<open>fetch_records\<close>
  returned them, which is \<^verbatim>\<open>created_at\<close> descending: the later-created record is
  ahead.
\<close>

theorem top_k_embeddings_ranking:
  "(normalize_table_name table = Inr table_name \<and>
    (\<forall>r \<in> set (db table_name). \<forall>v. embedding r = Vector v \<longrightarrow> length v = length q) \<longrightarrow>
      (\<exists>results. top_k_embeddings db table q k = Inr results)) \<and>
   (normalize_table_name table = Inr table_name \<and>
    score_records q (order_by_created_at_desc (db table_name)) = Inr scored \<and> 0 \<le> k \<longrightarrow>
     top_k_embeddings db table q k = Inr (map enrich (take (nat k) (sort_reverse scored))) \<and>
     map snd scored =
       filter (\<lambda>r. embedding r \<noteq> NotSequence) (order_by_created_at_desc (db table_name)) \<and>
     (\<forall>item \<in> set scored.
        \<exists>v. embedding (snd item) = Vector v \<and> cosine_similarity q v = Inr (fst item)) \<and>
     mset (sort_reverse scored) = mset scored \<and>
     sorted_wrt (\<lambda>a b. fst b \<le> fst a) (sort_reverse scored) \<and>
     (\<forall>s. filter (\<lambda>item. fst item = s) (sort_reverse scored) =
            filter (\<lambda>item. fst item = s) scored) \<and>
     (\<forall>s. sorted_wrt (\<lambda>a b. created_at (snd b) \<le> created_at (snd a))
            (filter (\<lambda>item. fst item = s) (sort_reverse scored))))"
proof (intro impI conjI allI ballI)
  assume t: "normalize_table_name table = Inr table_name \<and>
    (\<forall>r \<in> set (db table_name). \<forall>v. embedding r = Vector v \<longrightarrow> length v = length q)"
  then have "\<exists>scored. score_records q (order_by_created_at_desc (db table_name)) = Inr scored"
    by (intro score_records_total) (simp add: set_order_by)
  with t show "\<exists>results. top_k_embeddings db table q k = Inr results"
    by (auto simp: top_k_embeddings_def fetch_records_def)
next
  assume h: "normalize_table_name table = Inr table_name \<and>
             score_records q (order_by_created_at_desc (db table_name)) = Inr scored \<and> 0 \<le> k"
  then have sc: "score_records q (order_by_created_at_desc (db table_name)) = Inr scored"
    by simp
  from h show "top_k_embeddings db table q k =
                 Inr (map enrich (take (nat k) (sort_reverse scored)))"
    by (simp add: top_k_embeddings_def fetch_records_def slice_to_def)
  show "map snd scored =
          filter (\<lambda>r. embedding r \<noteq> NotSequence) (order_by_created_at_desc (db table_name))"
    by (rule score_records_rows [OF sc])
  show "\<exists>v. embedding (snd item) = Vector v \<and> cosine_similarity q v = Inr (fst item)"
    if "item \<in> set scored" for item
    by (rule score_records_scores [OF sc that])
  show "mset (sort_reverse scored) = mset scored"
    by (rule mset_sort_reverse)
  show "sorted_wrt (\<lambda>a b. fst b \<le> fst a) (sort_reverse scored)"
    by (rule sorted_sort_reverse)
  show "filter (\<lambda>item. fst item = s) (sort_reverse scored) =
        filter (\<lambda>item. fst item = s) scored" for s
    by (rule sort_reverse_stable)
  show "sorted_wrt (\<lambda>a b. created_at (snd b) \<le> created_at (snd a))
          (filter (\<lambda>item. fst item = s) (sort_reverse scored))" for s
    by (rule ties_in_fetch_order [OF sc])
qed

theorem top_k_embeddings_ranking_witness:
  "map_sum id (map (\<lambda>r. (id_col r, similarity r)))
     (top_k_embeddings db_three ''ti_memory'' [1, 0] 2) = Inr [(''c'', 1), (''a'', 1)]"
  using top_k_embeddings_ranking
          [where table = "''ti_memory''" and table_name = "''ti_memory''" and q = "[1, 0]"
             and db = db_three and k = 2
             and scored = "[(1, stored ''c'' ''kia ora koutou'' [1, 0] 300),
                            (0, stored ''b'' ''hello'' [0, 1] 200),
                            (1, stored ''a'' ''kia ora'' [1, 0] 100)]"]
  by (simp add: normalize_ti_memory score_three sort_reverse_def enrich_def stored_def)

section \<open>Properties of the embedding provider and the gateway\<close>








lemma filter_results_eq:
  "filter_results threshold results =
     map to_result
       (filter (\<lambda>item. case threshold of None \<Rightarrow> True | Some m \<Rightarrow> m \<le> similarity item) results)"
  by (induction results) (auto split: option.splits)

lemma length_slice_to: "0 \<le> k \<Longrightarrow> length (slice_to xs k) \<le> nat k"
  by (simp add: slice_to_def)

lemma search_embeddings_length:
  assumes "search_embeddings ext conf local_db remote_db table q k = Inr found" and "0 \<le> k"
  shows "length found \<le> nat k"
proof (cases "offline_mode conf")
  case True
  with assms(1) have "top_k_embeddings local_db table q k = Inr found"
    by (simp add: search_embeddings_def)
  then obtain scored where "found = map enrich (slice_to (sort_reverse scored) k)"
    by (auto simp: top_k_embeddings_def split: sum.splits)
  with assms(2) show ?thesis by (simp add: length_slice_to)
next
  case False
  with assms(1) have "client_search_embeddings (pg ext) remote_db table q k = Inr found"
    by (simp add: search_embeddings_def split: if_splits)
  then obtain ranked where "found = map pg_row_to_dict (take (nat k) ranked)"
    by (auto simp: client_search_embeddings_def pg_limit_def split: sum.splits if_splits)
  then show ?thesis by simp
qed

lemma retrieve_memories_success:
  assumes "retrieve_memories ext conf local_db remote_db request = Inr results"
  obtains qv found where "request_valid request"
    and "strip (query request) \<noteq> []"
    and "generate_embedding ext conf (query request) = Inr qv"
    and "search_embeddings ext conf local_db remote_db (memory_table_name conf) qv
           (top_k request) = Inr found"
    and "results = filter_results (min_similarity request) found"
  using assms
  by (auto simp: retrieve_memories_def split: if_splits sum.splits error.splits)

lemma retrieve_memories_found:
  assumes "request_valid request" and "strip (query request) \<noteq> []"
    and "generate_embedding ext conf (query request) = Inr qv"
    and "search_embeddings ext conf local_db remote_db (memory_table_name conf) qv
           (top_k request) = Inr found"
  shows "retrieve_memories ext conf local_db remote_db request =
           Inr (filter_results (min_similarity request) found)"
  using assms by (simp add: retrieve_memories_def)

text \<open>
  C1. Whenever \<^verbatim>\<open>retrieve_memories\<close> returns a list, in either mode, the list has at
  most \<open>top_k\<close> items, and when a threshold is set every item's similarity is at least
  the threshold. For a valid request with a non-blank query whose embedding and search
  succeed, it does return a list; when every found record is below the threshold, that
  list is empty.
\<close>

theorem retrieve_memories_bounds:
  "(retrieve_memories ext conf local_db remote_db request = Inr results \<longrightarrow>
      int (length results) \<le> top_k request \<and>
      (\<forall>m. min_similarity request = Some m \<longrightarrow> (\<forall>r \<in> set results. m \<le> result_similarity r))) \<and>
   (request_valid request \<and> strip (query request) \<noteq> [] \<and>
    generate_embedding ext conf (query request) = Inr qv \<and>
    search_embeddings ext conf local_db remote_db (memory_table_name conf) qv (top_k request)
      = Inr found \<and>
    min_similarity request = Some m \<and> (\<forall>item \<in> set found. similarity item < m) \<longrightarrow>
      retrieve_memories ext conf local_db remote_db request = Inr [])"
proof (intro conjI impI allI ballI)
  assume r: "retrieve_memories ext conf local_db remote_db request = Inr results"
  from r obtain qv' found' where v: "request_valid request"
    and s: "search_embeddings ext conf local_db remote_db (memory_table_name conf) qv'
              (top_k request) = Inr found'"
    and res: "results = filter_results (min_similarity request) found'"
    by (rule retrieve_memories_success)
  from v have k: "0 \<le> top_k request" by (simp add: request_valid_def)
  have "length results \<le> length found'"
    by (simp add: res filter_results_eq)
  also have "\<dots> \<le> nat (top_k request)"
    by (rule search_embeddings_length [OF s k])
  finally show "int (length results) \<le> top_k request" using k by simp
  show "m' \<le> result_similarity x" if "min_similarity request = Some m'" and "x \<in> set results"
    for m' x
    using that by (auto simp: res filter_results_eq to_result_def)
next
  assume h: "request_valid request \<and> strip (query request) \<noteq> [] \<and>
    generate_embedding ext conf (query request) = Inr qv \<and>
    search_embeddings ext conf local_db remote_db (memory_table_name conf) qv (top_k request)
      = Inr found \<and>
    min_similarity request = Some m \<and> (\<forall>item \<in> set found. similarity item < m)"
  then have "retrieve_memories ext conf local_db remote_db request =
               Inr (filter_results (min_similarity request) found)"
    by (simp add: retrieve_memories_found)
  moreover from h have "filter_results (min_similarity request) found = []"
    by (auto simp: filter_results_eq filter_empty_conv)
  ultimately show "retrieve_memories ext conf local_db remote_db request = Inr []"
    by simp
qed

lemma desc_filter_take:
  "sorted_wrt (\<lambda>a b. g b \<le> g a) xs \<Longrightarrow>
     filter (\<lambda>x. (m :: real) \<le> g x) (take k xs) = take k (filter (\<lambda>x. m \<le> g x) xs)"
proof (induction xs arbitrary: k)
  case Nil
  show ?case by simp
next
  case (Cons x xs)
  show ?case
  proof (cases k)
    case 0
    then show ?thesis by simp
  next
    case (Suc j)
    show ?thesis
    proof (cases "m \<le> g x")
      case True
      with Cons Suc show ?thesis by simp
    next
      case False
      with Cons.prems have "\<forall>y \<in> set xs. \<not> m \<le> g y" by auto
      then have "filter (\<lambda>x. m \<le> g x) xs = []"
        and "filter (\<lambda>x. m \<le> g x) (take j xs) = []"
        by (auto simp: filter_empty_conv dest: in_set_takeD)
      with False Suc show ?thesis by simp
    qed
  qed
qed

lemma similarity_enrich: "similarity (enrich item) = fst item"
  by (cases item) (simp add: enrich_def)

lemma sorted_ranked:
  "sorted_wrt (\<lambda>a b. similarity b \<le> similarity a) (map enrich (sort_reverse scored))"
  using sorted_sort_reverse [of scored] by (simp add: sorted_wrt_map similarity_enrich)

text \<open>
  C3. In offline mode with a threshold set, the answer of \<^verbatim>\<open>retrieve_memories\<close> is
  the ranking of all scored records, filtered by the threshold and then truncated to
  \<open>top_k\<close>: the route filters after \<^verbatim>\<open>top_k_embeddings\<close> has truncated, and on a
  list sorted by descending score the two orders give the same list, so no record below
  the threshold takes the place of one above it.
\<close>

theorem offline_threshold_before_truncation:
  "offline_mode conf \<and> request_valid request \<and> strip (query request) \<noteq> [] \<and>
   min_similarity request = Some m \<and>
   generate_embedding ext conf (query request) = Inr qv \<and>
   fetch_records local_db (memory_table_name conf) None = Inr records \<and>
   score_records qv records = Inr scored \<longrightarrow>
     retrieve_memories ext conf local_db remote_db request =
       Inr (map to_result
              (threshold_then_truncate m (top_k request) (map enrich (sort_reverse scored))))"
proof
  assume h: "offline_mode conf \<and> request_valid request \<and> strip (query request) \<noteq> [] \<and>
   min_similarity request = Some m \<and>
   generate_embedding ext conf (query request) = Inr qv \<and>
   fetch_records local_db (memory_table_name conf) None = Inr records \<and>
   score_records qv records = Inr scored"
  then have k: "0 \<le> top_k request" by (simp add: request_valid_def)
  let ?ranked = "map enrich (sort_reverse scored)"
  from h k have "search_embeddings ext conf local_db remote_db (memory_table_name conf) qv
                   (top_k request) = Inr (take (nat (top_k request)) ?ranked)"
    by (simp add: search_embeddings_def top_k_embeddings_def slice_to_def take_map)
  with h have "retrieve_memories ext conf local_db remote_db request =
                 Inr (filter_results (Some m) (take (nat (top_k request)) ?ranked))"
    by (simp add: retrieve_memories_found)
  also have "filter_results (Some m) (take (nat (top_k request)) ?ranked) =
             map to_result (filter (\<lambda>item. m \<le> similarity item)
                              (take (nat (top_k request)) ?ranked))"
    by (simp add: filter_results_eq)
  also have "filter (\<lambda>item. m \<le> similarity item) (take (nat (top_k request)) ?ranked) =
             take (nat (top_k request)) (filter (\<lambda>item. m \<le> similarity item) ?ranked)"
    by (rule desc_filter_take) (rule sorted_ranked)
  also have "\<dots> = threshold_then_truncate m (top_k request) ?ranked"
    using k by (simp add: threshold_then_truncate_def slice_to_def)
  finally show "retrieve_memories ext conf local_db remote_db request =
       Inr (map to_result (threshold_then_truncate m (top_k request) ?ranked))" .
qed

lemma strip_kia_ora: "strip ''kia ora'' = ''kia ora''"
  by (simp add: strip_def isspace_def)

lemma memory_table_demo:
  "memory_table_name offline_settings = ''ti_memory''"
  "memory_table_name live_settings = ''ti_memory''"
  by (simp_all add: memory_table_name_def offline_settings_def live_settings_def)

lemma live_search:
  "0 \<le> k \<Longrightarrow> search_embeddings demo_external live_settings empty_db remote_rows ''ti_memory'' q k =
     Inr (map pg_row_to_dict (take (nat k) remote_rows))"
  by (simp add: search_embeddings_def live_settings_def falsy_def demo_external_def
        client_search_embeddings_def demo_server_def pg_limit_def identifier_eval)

lemma live_embedding:
  "generate_embedding demo_external live_settings text = Inr [1, 0]"
  by (simp add: generate_embedding_def live_settings_def falsy_def demo_external_def)

theorem retrieve_memories_bounds_witness:
  "retrieve_memories demo_external live_settings empty_db remote_rows
     (demo_request 5 (Some (1 / 2))) = Inr [MemoryRetrieveResult ''m1'' ''kia ora'' [] 100 (9 / 10)] \<and>
   retrieve_memories demo_external live_settings empty_db remote_rows
     (demo_request 5 (Some 1)) = Inr []"
proof -
  have valid: "request_valid (demo_request 5 (Some t))" if "0 \<le> t" "t \<le> 1" for t
    using that by (simp add: request_valid_def demo_request_def)
  have all_rows: "take 5 remote_rows = remote_rows"
    by (simp add: remote_rows_def)
  have found: "search_embeddings demo_external live_settings empty_db remote_rows
                 (memory_table_name live_settings) [1, 0] (top_k (demo_request 5 (Some t))) =
               Inr (map pg_row_to_dict remote_rows)" for t
    by (simp add: memory_table_demo live_search demo_request_def all_rows)
  have below: "similarity item < 1" if "item \<in> set (map pg_row_to_dict remote_rows)" for item
    using that by (auto simp: remote_rows_def pg_row_to_dict_def)
  have first: "retrieve_memories demo_external live_settings empty_db remote_rows
     (demo_request 5 (Some (1 / 2))) = Inr [MemoryRetrieveResult ''m1'' ''kia ora'' [] 100 (9 / 10)]"
    using found [of "1 / 2"] valid [of "1 / 2"]
    by (simp add: retrieve_memories_def live_embedding to_result_def pg_row_to_dict_def
          remote_rows_def demo_request_def strip_kia_ora)
  have second: "retrieve_memories demo_external live_settings empty_db remote_rows
     (demo_request 5 (Some 1)) = Inr []"
    using retrieve_memories_bounds
            [where ext = demo_external and conf = live_settings and local_db = empty_db
               and remote_db = remote_rows and request = "demo_request 5 (Some 1)"
               and qv = "[1, 0]" and found = "map pg_row_to_dict remote_rows" and m = 1]
          valid [of 1] found [of 1] below
    by (simp add: live_embedding demo_request_def strip_kia_ora)
  from first second show ?thesis by simp
qed

lemma utf8_kia_ora: "utf8_encode ''kia ora'' = [0x6b, 0x69, 0x61, 0x20, 0x6f, 0x72, 0x61]"
  by (simp add: utf8_encode_def)

lemma sha256_kia_ora: "sha256 [0x6b, 0x69, 0x61, 0x20, 0x6f, 0x72, 0x61] = kia_ora_digest"
  unfolding kia_ora_digest_def by code_simp


lemma offline_embedding_kia_ora:
  "generate_embedding demo_external offline_settings ''kia ora'' = Inr kia_ora_embedding"
  by (simp add: generate_embedding_def offline_settings_def utf8_kia_ora sha256_kia_ora
        kia_ora_embedding_def kia_ora_digest_def)

lemma length_kia_ora_embedding: "length kia_ora_embedding = 32"
  by (simp add: kia_ora_embedding_def kia_ora_digest_def)

lemma kia_ora_embedding_nonzero: "\<exists>x \<in> set kia_ora_embedding. x \<noteq> 0"
  by (simp add: kia_ora_embedding_def kia_ora_digest_def)

lemma cosine_kia_ora_self: "cosine_similarity kia_ora_embedding kia_ora_embedding = Inr 1"
  by (rule cosine_similarity_self [OF kia_ora_embedding_nonzero])

lemma cosine_kia_ora_zero: "cosine_similarity kia_ora_embedding (replicate 32 0) = Inr 0"
  by (rule cosine_similarity_zero) (simp_all add: length_kia_ora_embedding)

lemma db_kia_ora_rows:
  "db_kia_ora ''ti_memory'' =
     [stored ''a'' ''kia ora'' kia_ora_embedding 100, stored ''z'' ''blank'' (replicate 32 0) 200,
      stored ''b'' ''kia ora'' kia_ora_embedding 300]"
  by (simp add: db_kia_ora_def empty_db_def store_embedding_def insert_record_def
        normalize_ti_memory stored_def Let_def)

lemma fetch_kia_ora:
  "fetch_records db_kia_ora ''ti_memory'' None =
     Inr [stored ''b'' ''kia ora'' kia_ora_embedding 300, stored ''z'' ''blank'' (replicate 32 0) 200,
          stored ''a'' ''kia ora'' kia_ora_embedding 100]"
  by (simp add: fetch_records_def normalize_ti_memory db_kia_ora_rows
        order_by_created_at_desc_def stored_def)

lemma score_kia_ora:
  "score_records kia_ora_embedding
     [stored ''b'' ''kia ora'' kia_ora_embedding 300, stored ''z'' ''blank'' (replicate 32 0) 200,
      stored ''a'' ''kia ora'' kia_ora_embedding 100] =
   Inr [(1, stored ''b'' ''kia ora'' kia_ora_embedding 300),
        (0, stored ''z'' ''blank'' (replicate 32 0) 200),
        (1, stored ''a'' ''kia ora'' kia_ora_embedding 100)]"
  by (simp add: stored_def cosine_kia_ora_self cosine_kia_ora_zero)

theorem offline_threshold_before_truncation_witness:
  "retrieve_memories demo_external offline_settings db_kia_ora [] (demo_request 2 (Some (1 / 2))) =
     Inr [MemoryRetrieveResult ''b'' ''kia ora'' [] 300 1,
          MemoryRetrieveResult ''a'' ''kia ora'' [] 100 1]"
proof -
  let ?records = "[stored ''b'' ''kia ora'' kia_ora_embedding 300,
                   stored ''z'' ''blank'' (replicate 32 0) 200,
                   stored ''a'' ''kia ora'' kia_ora_embedding 100]"
  let ?scored = "[(1, stored ''b'' ''kia ora'' kia_ora_embedding 300),
                  (0, stored ''z'' ''blank'' (replicate 32 0) 200),
                  (1, stored ''a'' ''kia ora'' kia_ora_embedding 100)]"
  have offline: "offline_mode offline_settings"
    by (simp add: offline_settings_def)
  have valid: "request_valid (demo_request 2 (Some (1 / 2)))"
    and nonblank: "strip (query (demo_request 2 (Some (1 / 2)))) \<noteq> []"
    and threshold: "min_similarity (demo_request 2 (Some (1 / 2))) = Some (1 / 2)"
    and embedded: "generate_embedding demo_external offline_settings
                     (query (demo_request 2 (Some (1 / 2)))) = Inr kia_ora_embedding"
    by (simp_all add: request_valid_def demo_request_def strip_kia_ora offline_embedding_kia_ora)
  have fetched: "fetch_records db_kia_ora (memory_table_name offline_settings) None = Inr ?records"
    by (simp only: memory_table_demo fetch_kia_ora)
  have "retrieve_memories demo_external offline_settings db_kia_ora []
          (demo_request 2 (Some (1 / 2))) =
        Inr (map to_result
               (threshold_then_truncate (1 / 2) (top_k (demo_request 2 (Some (1 / 2))))
                  (map enrich (sort_reverse ?scored))))"
    using offline_threshold_before_truncation
            [where conf = offline_settings and ext = demo_external and local_db = db_kia_ora
               and remote_db = "[]" and request = "demo_request 2 (Some (1 / 2))"
               and m = "1 / 2" and qv = kia_ora_embedding and records = ?records
               and scored = ?scored]
          offline valid nonblank threshold embedded fetched score_kia_ora
    by blast
  then show ?thesis
    by (simp add: demo_request_def threshold_then_truncate_def slice_to_def sort_reverse_def
          enrich_def to_result_def stored_def)
qed

end
